theory Spec2Isabelle
  imports Complex_Main "HOL-Library.Log_Nat"
begin

section \<open>Python numbers\<close>

text \<open>
  The amounts of the program are Python floats (IEEE 754 binary64). A finite float is
  modelled by the rational number it denotes, and every arithmetic operation of the source
  is the exact operation followed by \<open>fl\<close>, the rounding to the nearest binary64 value
  (53-bit significand, ties to even, gradual underflow below \<open>2 ^ - 1022\<close>). Infinities
  and NaN are not modelled: no operation of the price pipeline overflows on inputs that
  pass its validation.

  \<open>round_half_even\<close> rounds a rational to the nearest integer, ties to the even one.
\<close>

definition round_half_even :: "rat \<Rightarrow> int" where
  "round_half_even y =
     (let f = \<lfloor>y\<rfloor>; d = y - of_int f
      in if d < 1 / 2 then f
         else if 1 / 2 < d then f + 1
         else if even f then f else f + 1)"

definition pow2 :: "int \<Rightarrow> rat" where
  "pow2 e = (if 0 \<le> e then 2 ^ nat e else 1 / 2 ^ nat (- e))"

text \<open>The binary exponent of a positive rational: \<open>pow2 (ilog2 x) \<le> x < pow2 (ilog2 x + 1)\<close>.\<close>

definition ilog2 :: "rat \<Rightarrow> int" where
  "ilog2 x = (if 1 \<le> x then bitlen \<lfloor>x\<rfloor> - 1 else - bitlen (\<lceil>1 / x\<rceil> - 1))"

definition fl :: "rat \<Rightarrow> rat" where
  "fl x =
     (if x = 0 then 0
      else let e = max (ilog2 \<bar>x\<bar>) (- 1022); u = pow2 (e - 52)
           in of_int (round_half_even (x / u)) * u)"

text \<open>Python's \<open>a * b\<close>, \<open>a / b\<close>, \<open>a + b\<close> and \<open>a - b\<close> on floats (an \<open>int\<close> operand is
  converted first, exactly for the magnitudes that occur here).\<close>

definition fmul :: "rat \<Rightarrow> rat \<Rightarrow> rat" where
  "fmul a b = fl (a * b)"

definition fdiv :: "rat \<Rightarrow> rat \<Rightarrow> rat" where
  "fdiv a b = fl (a / b)"

definition fadd :: "rat \<Rightarrow> rat \<Rightarrow> rat" where
  "fadd a b = fl (a + b)"

definition fsub :: "rat \<Rightarrow> rat \<Rightarrow> rat" where
  "fsub a b = fl (a - b)"

text \<open>Python's \<open>round(x, 2)\<close> on a float: the exact value of \<open>x\<close> is rounded to two
  decimals (ties to even), and the decimal result is converted back to the nearest float.\<close>

definition round2 :: "rat \<Rightarrow> rat" where
  "round2 x = fl (of_int (round_half_even (x * 100)) / 100)"

section \<open>Exceptions (exceptions.py)\<close>

text \<open>
  An exception is a value: one constructor for each class that the pipeline can raise, with
  the arguments of its constructor call. \<open>TypeError\<close> is the interpreter's exception for
  a call with the wrong number of arguments. A text is a list of pieces, so that an
  f-string keeps the values it formats: a literal (UTF-8 bytes), the \<open>repr\<close> of a number,
  or the \<open>str\<close> of an exception. A dictionary of diagnostic values (\<open>PDict\<close>) is an
  association list in the order of the source.
\<close>

datatype exn =
    ValueError "piece list"
  | TypeError
  | InvalidStateError string "string list"
  | StateNotSupportedError string
  | CalculationError "piece list" "(string \<times> pyval) list"
and piece = Lit string | Repr pyval | Str exn
and pyval = PInt int | PFloat rat | PStr "piece list" | PList "pyval list"
  | PDict "(string \<times> pyval) list"

type_synonym pytext = "piece list"

text \<open>\<open>str(e)\<close>: the message of a \<open>ValueError\<close>; the rendering of the other classes is
  the framework's and stays symbolic.\<close>

fun str_exn :: "exn \<Rightarrow> pytext" where
  "str_exn (ValueError m) = m"
| "str_exn e = [Str e]"

definition e_acute :: string where
  "e_acute = [CHR 0xC3, CHR 0xA9]"

definition e_circ :: string where
  "e_circ = [CHR 0xC3, CHR 0xAA]"

definition E_acute :: string where
  "E_acute = [CHR 0xC3, CHR 0x89]"

definition euro :: string where
  "euro = [CHR 0xE2, CHR 0x82, CHR 0xAC]"

definition times_sign :: string where
  "times_sign = [CHR 0xC3, CHR 0x97]"

definition apostrophe :: string where
  "apostrophe = [CHR 0x27]"

text \<open>The fields that \<open>RetailException.__init__\<close> hands to \<open>HTTPException\<close>.\<close>

record http_detail =
  status_code :: nat
  error_code :: string
  message :: pytext
  additional_info :: "(string \<times> pyval) list"

fun retail_detail :: "exn \<Rightarrow> http_detail option" where
  "retail_detail (InvalidStateError state valid_states) = Some
     \<lparr>status_code = 400,
      error_code = ''INVALID_STATE'',
      message = [Lit (''L'' @ apostrophe @ e_acute @ ''tat '' @ apostrophe), Lit state,
                 Lit (apostrophe @ '' n'' @ apostrophe @ ''est pas valide'')],
      additional_info =
        [(''provided_state'', PStr [Lit state]),
         (''valid_states'', PList (map (\<lambda>s. PStr [Lit s]) valid_states)),
         (''suggestion'', PStr [Lit (''Veuillez utiliser un des '' @ e_acute
             @ ''tats valides list'' @ e_acute @ ''s'')])]\<rparr>"
| "retail_detail (StateNotSupportedError state) = Some
     \<lparr>status_code = 400,
      error_code = ''STATE_NOT_SUPPORTED'',
      message = [Lit (''L'' @ apostrophe @ e_acute @ ''tat '' @ apostrophe), Lit state,
                 Lit (apostrophe @ '' n'' @ apostrophe @ ''est pas encore support'' @ e_acute
                      @ '' pour les calculs de taxe'')],
      additional_info =
        [(''state'', PStr [Lit state]),
         (''suggestion'', PStr [Lit (''Contactez le support pour ajouter le support de cet ''
             @ e_acute @ ''tat'')])]\<rparr>"
| "retail_detail (CalculationError detail calculation_data) = Some
     \<lparr>status_code = 500,
      error_code = ''CALCULATION_ERROR'',
      message = Lit ''Erreur lors du calcul : '' # detail,
      additional_info =
        [(''calculation_data'', PDict calculation_data),
         (''suggestion'', PStr [Lit (''Veuillez v'' @ e_acute @ ''rifier les donn'' @ e_acute
             @ ''es d'' @ apostrophe @ ''entr'' @ e_acute @ ''e'')])]\<rparr>"
| "retail_detail (ValueError m) = None"
| "retail_detail TypeError = None"

section \<open>Discount engine (discount.py)\<close>

record DiscountRule =
  min_amount :: rat
  discount_percentage :: rat
  description :: string

record DiscountCalculator =
  discount_rules :: "DiscountRule list"

definition DiscountCalculator_init :: DiscountCalculator where
  "DiscountCalculator_init = \<lparr>discount_rules =
     [\<lparr>min_amount = 100, discount_percentage = 5,
       description = ''5% de remise pour les achats de plus de 100'' @ euro\<rparr>,
      \<lparr>min_amount = 500, discount_percentage = 10,
       description = ''10% de remise pour les achats de plus de 500'' @ euro\<rparr>,
      \<lparr>min_amount = 1000, discount_percentage = 15,
       description = ''15% de remise pour les achats de plus de 1000'' @ euro\<rparr>,
      \<lparr>min_amount = 5000, discount_percentage = 20,
       description = ''20% de remise pour les achats de plus de 5000'' @ euro\<rparr>]\<rparr>"

text \<open>Python's \<open>max(xs, key=k)\<close> on a non-empty list \<open>x # xs\<close>: the first element whose
  key is maximal (a later element replaces the current one only if its key is strictly
  greater).\<close>

fun max_key :: "('a \<Rightarrow> rat) \<Rightarrow> 'a \<Rightarrow> 'a list \<Rightarrow> 'a" where
  "max_key k best [] = best"
| "max_key k best (x # xs) = (if k best < k x then max_key k x xs else max_key k best xs)"

definition get_applicable_discount :: "DiscountCalculator \<Rightarrow> rat \<Rightarrow> DiscountRule option" where
  "get_applicable_discount self total_amount =
     (let applicable_rules = filter (\<lambda>rule. min_amount rule \<le> total_amount) (discount_rules self)
      in case applicable_rules of
           [] \<Rightarrow> None
         | r # rs \<Rightarrow> Some (max_key DiscountRule.discount_percentage r rs))"

text \<open>The dictionary that \<open>calculate_discount\<close> returns: a record with one field
  \<open>di_k\<close> for each key \<open>"k"\<close>.\<close>

record discount_info =
  di_original_amount :: rat
  di_discount_percentage :: rat
  di_discount_amount :: rat
  di_final_amount :: rat
  di_discount_description :: string

definition calculate_discount :: "DiscountCalculator \<Rightarrow> rat \<Rightarrow> discount_info" where
  "calculate_discount self total_amount =
     (case get_applicable_discount self total_amount of
        None \<Rightarrow>
          \<lparr>di_original_amount = total_amount,
           di_discount_percentage = 0,
           di_discount_amount = 0,
           di_final_amount = total_amount,
           di_discount_description = ''Aucune remise applicable''\<rparr>
      | Some discount_rule \<Rightarrow>
          (let discount_amount = fmul total_amount
                 (fdiv (DiscountRule.discount_percentage discount_rule) 100);
               final_amount = fsub total_amount discount_amount
           in \<lparr>di_original_amount = total_amount,
               di_discount_percentage = DiscountRule.discount_percentage discount_rule,
               di_discount_amount = round2 discount_amount,
               di_final_amount = round2 final_amount,
               di_discount_description = DiscountRule.description discount_rule\<rparr>))"

section \<open>Tax engine (tax.py)\<close>

datatype State = UT | NV | TX | AL | CA

fun State_value :: "State \<Rightarrow> string" where
  "State_value UT = ''UT''"
| "State_value NV = ''NV''"
| "State_value TX = ''TX''"
| "State_value AL = ''AL''"
| "State_value CA = ''CA''"

definition State_members :: "State list" where
  "State_members = [UT, NV, TX, AL, CA]"

definition value2member_map :: "string \<Rightarrow> State option" where
  "value2member_map = map_of (map (\<lambda>s. (State_value s, s)) State_members)"

definition list_states :: "string list" where
  "list_states = map State_value State_members"

definition is_valid_state :: "string \<Rightarrow> bool" where
  "is_valid_state state = (value2member_map state \<noteq> None)"

record TaxRate =
  rate :: rat
  description :: string
  enabled :: bool

text \<open>The table is an attribute of the calculator object, so it is a field of the
  calculator here; \<open>TaxCalculator_init\<close> is the table that \<open>__init__\<close> builds. A literal
  such as \<open>6.85\<close> is the float nearest to it.\<close>

record TaxCalculator =
  tax_rates :: "State \<Rightarrow> TaxRate option"

definition TaxCalculator_init :: TaxCalculator where
  "TaxCalculator_init = \<lparr>tax_rates = map_of
     [(UT, \<lparr>rate = fl (685 / 100), description = ''Utah Sales Tax'', enabled = True\<rparr>),
      (NV, \<lparr>rate = fl (800 / 100), description = ''Nevada Sales Tax'', enabled = True\<rparr>),
      (TX, \<lparr>rate = fl (625 / 100), description = ''Texas Sales Tax'', enabled = True\<rparr>),
      (AL, \<lparr>rate = fl (400 / 100), description = ''Alabama Sales Tax'', enabled = True\<rparr>),
      (CA, \<lparr>rate = fl (825 / 100), description = ''California Sales Tax'',
            enabled = True\<rparr>)]\<rparr>"

text \<open>
  \<open>validate_state\<close>. \<open>State(state)\<close> raises \<open>ValueError\<close> on a string that is no member
  value (unreachable after the first check). A \<open>TaxRate\<close> object is always truthy, so
  \<open>not tax_rate\<close> holds exactly for a missing entry. For a disabled entry the source calls
  \<open>StateNotSupportedError(state, f"...")\<close> with two arguments, while
  \<open>StateNotSupportedError.__init__\<close> takes one: the call raises \<open>TypeError\<close> and no
  \<open>StateNotSupportedError\<close> is built.
\<close>

definition validate_state :: "TaxCalculator \<Rightarrow> string \<Rightarrow> exn + State" where
  "validate_state self state =
     (if \<not> is_valid_state state then Inl (InvalidStateError state list_states)
      else case value2member_map state of
             None \<Rightarrow> Inl (ValueError [Repr (PStr [Lit state]), Lit '' is not a valid State''])
           | Some state_enum \<Rightarrow>
               (case tax_rates self state_enum of
                  None \<Rightarrow> Inl (StateNotSupportedError state)
                | Some tax_rate \<Rightarrow>
                    if \<not> enabled tax_rate then Inl TypeError
                    else Inr state_enum))"

definition get_tax_rate :: "TaxCalculator \<Rightarrow> State \<Rightarrow> TaxRate option" where
  "get_tax_rate self state = tax_rates self state"

text \<open>The dictionary that \<open>calculate_tax\<close> returns: a record with one field \<open>ti_k\<close>
  for each key \<open>"k"\<close>.\<close>

record tax_info =
  ti_original_amount :: rat
  ti_state :: string
  ti_tax_rate :: rat
  ti_tax_amount :: rat
  ti_final_amount :: rat
  ti_tax_description :: pytext
  ti_calculation_details :: "pytext list"

definition negative_amount_message :: string where
  "negative_amount_message =
     ''Le montant ne peut pas '' @ e_circ @ ''tre n'' @ e_acute @ ''gatif''"

text \<open>The body of the \<open>try\<close> block of \<open>calculate_tax\<close>.\<close>

definition calculate_tax_try :: "TaxCalculator \<Rightarrow> rat \<Rightarrow> string \<Rightarrow> exn + tax_info" where
  "calculate_tax_try self amount0 state =
     (case validate_state self state of
        Inl e \<Rightarrow> Inl e
      | Inr state_enum \<Rightarrow>
          if amount0 < 0
          then Inl (ValueError [Lit negative_amount_message])
          else
            (let amount = round2 amount0
             in case get_tax_rate self state_enum of
                  None \<Rightarrow> Inl (StateNotSupportedError state)
                | Some tax_rate \<Rightarrow>
                    (let tax_amount = round2 (fmul amount (fdiv (rate tax_rate) 100));
                         final_amount = round2 (fadd amount tax_amount);
                         calculation_details =
                           [[Lit ''1. Montant de base : '', Repr (PFloat amount), Lit euro],
                            [Lit (''2. '' @ E_acute @ ''tat ''), Lit state,
                             Lit '' - Taux de taxe : '', Repr (PFloat (rate tax_rate)), Lit ''%''],
                            [Lit ''3. Calcul de la taxe : '', Repr (PFloat amount),
                             Lit (euro @ '' '' @ times_sign @ '' ''),
                             Repr (PFloat (rate tax_rate)), Lit ''% = '',
                             Repr (PFloat tax_amount), Lit euro],
                            [Lit ''4. Montant final : '', Repr (PFloat amount),
                             Lit (euro @ '' + ''), Repr (PFloat tax_amount),
                             Lit (euro @ '' = ''), Repr (PFloat final_amount), Lit euro]]
                     in Inr \<lparr>ti_original_amount = amount,
                             ti_state = state,
                             ti_tax_rate = rate tax_rate,
                             ti_tax_amount = tax_amount,
                             ti_final_amount = final_amount,
                             ti_tax_description =
                               [Lit ''Taxe de vente '', Lit state, Lit '' ('',
                                Repr (PFloat (rate tax_rate)), Lit ''%)''],
                             ti_calculation_details = calculation_details\<rparr>)))"

text \<open>
  \<open>calculate_tax\<close>: the \<open>try\<close> block under its three handlers, in the order of the source.
  Every exception that a handler wraps is raised before \<open>amount\<close> is rounded, so the
  \<open>amount\<close> of the diagnostic data is the argument.
\<close>

definition calculate_tax :: "TaxCalculator \<Rightarrow> rat \<Rightarrow> string \<Rightarrow> exn + tax_info" where
  "calculate_tax self amount state =
     (case calculate_tax_try self amount state of
        Inr result \<Rightarrow> Inr result
      | Inl e \<Rightarrow>
          (case e of
             ValueError m \<Rightarrow>
               Inl (CalculationError (str_exn e)
                      [(''amount'', PFloat amount), (''state'', PStr [Lit state])])
           | InvalidStateError s vs \<Rightarrow> Inl e
           | StateNotSupportedError s \<Rightarrow> Inl e
           | _ \<Rightarrow>
               Inl (CalculationError [Lit ''Erreur inattendue lors du calcul de la taxe'']
                      [(''amount'', PFloat amount), (''state'', PStr [Lit state]),
                       (''error'', PStr (str_exn e))])))"

section \<open>Price pipeline (price_calculator.py)\<close>

record PriceBreakdown =
  subtotal :: rat
  discount_percentage :: rat
  discount_amount :: rat
  price_after_discount :: rat
  tax_rate :: rat
  tax_amount :: rat
  final_price :: rat
  tax_description :: pytext
  calculation_steps :: "pytext list"

record PriceCalculator =
  tax_calculator :: TaxCalculator
  discount_calculator :: DiscountCalculator
  MAX_QUANTITY :: int
  MAX_UNIT_PRICE :: int
  MAX_TOTAL :: int

definition PriceCalculator_init :: PriceCalculator where
  "PriceCalculator_init =
     \<lparr>tax_calculator = TaxCalculator_init,
      discount_calculator = DiscountCalculator_init,
      MAX_QUANTITY = 10000,
      MAX_UNIT_PRICE = 1000000,
      MAX_TOTAL = 10000000\<rparr>"

definition validate_inputs :: "PriceCalculator \<Rightarrow> int \<Rightarrow> rat \<Rightarrow> exn + unit" where
  "validate_inputs self quantity unit_price =
     (if quantity \<le> 0
      then Inl (ValueError [Lit (''La quantit'' @ e_acute @ '' doit '' @ e_circ
                                 @ ''tre un nombre positif'')])
      else if unit_price \<le> 0
      then Inl (ValueError [Lit (''Le prix unitaire doit '' @ e_circ
                                 @ ''tre un nombre positif'')])
      else if quantity > MAX_QUANTITY self
      then Inl (ValueError [Lit (''La quantit'' @ e_acute @ '' ne peut pas d'' @ e_acute
                                 @ ''passer ''), Repr (PInt (MAX_QUANTITY self))])
      else if unit_price > of_int (MAX_UNIT_PRICE self)
      then Inl (ValueError [Lit (''Le prix unitaire ne peut pas d'' @ e_acute @ ''passer ''),
                            Repr (PInt (MAX_UNIT_PRICE self)), Lit euro])
      else let total = fmul (of_int quantity) unit_price
           in if total > of_int (MAX_TOTAL self)
              then Inl (ValueError [Lit (''Le montant total ne peut pas d'' @ e_acute
                                         @ ''passer 10 millions '' @ euro)])
              else Inr ())"

text \<open>The body of the \<open>try\<close> block of \<open>calculate_final_price\<close>.\<close>

definition calculate_final_price_try ::
    "PriceCalculator \<Rightarrow> int \<Rightarrow> rat \<Rightarrow> string \<Rightarrow> exn + PriceBreakdown" where
  "calculate_final_price_try self quantity unit_price state =
     (case validate_inputs self quantity unit_price of
        Inl e \<Rightarrow> Inl e
      | Inr _ \<Rightarrow>
          (let subtotal = round2 (fmul (of_int quantity) unit_price);
               discount_info = calculate_discount (discount_calculator self) subtotal;
               price_after_discount = di_final_amount discount_info
           in case calculate_tax (tax_calculator self) price_after_discount state of
                Inl e \<Rightarrow> Inl e
              | Inr tax_info \<Rightarrow>
                  Inr \<lparr>subtotal = subtotal,
                       discount_percentage = di_discount_percentage discount_info,
                       discount_amount = di_discount_amount discount_info,
                       price_after_discount = price_after_discount,
                       tax_rate = ti_tax_rate tax_info,
                       tax_amount = ti_tax_amount tax_info,
                       final_price = ti_final_amount tax_info,
                       tax_description = ti_tax_description tax_info,
                       calculation_steps = ti_calculation_details tax_info\<rparr>))"

text \<open>
  \<open>calculate_final_price\<close>: \<open>except ValueError\<close> raises a new \<open>ValueError\<close> with the same
  message; \<open>except Exception\<close> catches every other exception, the three
  \<open>RetailException\<close> classes included (they derive from \<open>Exception\<close> through
  \<open>HTTPException\<close>), and raises a \<open>CalculationError\<close>.
\<close>

definition calculate_final_price ::
    "PriceCalculator \<Rightarrow> int \<Rightarrow> rat \<Rightarrow> string \<Rightarrow> exn + PriceBreakdown" where
  "calculate_final_price self quantity unit_price state =
     (case calculate_final_price_try self quantity unit_price state of
        Inr result \<Rightarrow> Inr result
      | Inl e \<Rightarrow>
          (case e of
             ValueError m \<Rightarrow> Inl (ValueError (str_exn e))
           | _ \<Rightarrow>
               Inl (CalculationError (str_exn e)
                      [(''quantity'', PInt quantity), (''unit_price'', PFloat unit_price),
                       (''state'', PStr [Lit state])])))"

section \<open>Request schema (models.py)\<close>

text \<open>
  \<open>ProductInput.validate_price\<close> rejects a price whose shortest decimal representation
  (\<open>Decimal(str(v))\<close>) has more than two digits after the point. For the prices that the
  schema admits (\<open>0 < v \<le> 1000000\<close>) that is: \<open>v\<close> is not the float nearest to a
  decimal with two digits, that is, \<open>round2 v \<noteq> v\<close>.
\<close>

definition validate_price :: "rat \<Rightarrow> exn + rat" where
  "validate_price v =
     (if round2 v \<noteq> v
      then Inl (ValueError [Lit (''Le prix ne peut pas avoir plus de 2 d'' @ e_acute
                                 @ ''cimales'')])
      else Inr v)"

section \<open>Jurisdiction codes and tier selection: basic facts\<close>

lemma value2member_map_cases:
  "value2member_map state = Some st \<longleftrightarrow> state = State_value st"
  by (cases st) (auto simp: value2member_map_def State_members_def split: if_split_asm)

lemma is_valid_state_iff: "is_valid_state state \<longleftrightarrow> state \<in> set list_states"
  by (auto simp: is_valid_state_def list_states_def value2member_map_def State_members_def)

lemma list_states_eq: "list_states = [''UT'', ''NV'', ''TX'', ''AL'', ''CA'']"
  by (simp add: list_states_def State_members_def)

lemma validate_state_unknown:
  "state \<notin> set list_states \<Longrightarrow>
   validate_state self state = Inl (InvalidStateError state list_states)"
  by (simp add: validate_state_def is_valid_state_iff)

lemma validate_state_absent:
  "value2member_map state = Some st \<Longrightarrow> tax_rates self st = None \<Longrightarrow>
   validate_state self state = Inl (StateNotSupportedError state)"
  by (simp add: validate_state_def is_valid_state_def)

lemma validate_state_disabled:
  "value2member_map state = Some st \<Longrightarrow> tax_rates self st = Some tr \<Longrightarrow> \<not> enabled tr \<Longrightarrow>
   validate_state self state = Inl TypeError"
  by (simp add: validate_state_def is_valid_state_def)

lemma validate_state_enabled:
  "value2member_map state = Some st \<Longrightarrow> tax_rates self st = Some tr \<Longrightarrow> enabled tr \<Longrightarrow>
   validate_state self state = Inr st"
  by (simp add: validate_state_def is_valid_state_def)

text \<open>\<open>max_key\<close> returns an element of its list with a maximal key.\<close>

lemma max_key_mem: "max_key k b xs \<in> set (b # xs)"
  by (induction xs arbitrary: b) auto

lemma max_key_ge: "x \<in> set (b # xs) \<Longrightarrow> k x \<le> k (max_key k b xs)"
proof (induction xs arbitrary: b x)
  case Nil
  then show ?case by simp
next
  case (Cons y ys)
  show ?case
  proof (cases "k b < k y")
    case True
    have "k y \<le> k (max_key k y ys)" by (rule Cons.IH) simp
    with True Cons.prems Cons.IH[of x y] show ?thesis by auto
  next
    case False
    have "k b \<le> k (max_key k b ys)" by (rule Cons.IH) simp
    with False Cons.prems Cons.IH[of x b] show ?thesis by auto
  qed
qed

lemma get_applicable_discount_Some:
  assumes "get_applicable_discount self amt = Some rule"
  shows "rule \<in> set (discount_rules self) \<and> min_amount rule \<le> amt \<and>
         (\<forall>r \<in> set (discount_rules self). min_amount r \<le> amt \<longrightarrow>
            DiscountRule.discount_percentage r \<le> DiscountRule.discount_percentage rule)"
proof -
  let ?app = "filter (\<lambda>rule. min_amount rule \<le> amt) (discount_rules self)"
  from assms obtain r rs where app: "?app = r # rs"
    and rule: "rule = max_key DiscountRule.discount_percentage r rs"
    by (auto simp: get_applicable_discount_def Let_def split: list.splits)
  have "rule \<in> set ?app" unfolding rule app by (rule max_key_mem)
  moreover have "\<forall>x \<in> set ?app. DiscountRule.discount_percentage x
      \<le> DiscountRule.discount_percentage rule"
    unfolding rule app using max_key_ge[of _ r rs DiscountRule.discount_percentage] by blast
  ultimately show ?thesis by auto
qed

lemma get_applicable_discount_None:
  "get_applicable_discount self amt = None \<longleftrightarrow>
   (\<forall>r \<in> set (discount_rules self). amt < min_amount r)"
proof -
  have "get_applicable_discount self amt = None \<longleftrightarrow>
        filter (\<lambda>rule. min_amount rule \<le> amt) (discount_rules self) = []"
    by (simp add: get_applicable_discount_def Let_def split: list.splits)
  then show ?thesis by (simp add: filter_empty_conv not_le)
qed

text \<open>
  Claim C5. For every subtotal \<open>s\<close> and every tier list: when some tier is eligible
  (\<open>min_amount \<le> s\<close>), \<open>get_applicable_discount\<close> returns a tier of the list that is
  eligible and whose percentage no eligible tier exceeds; when \<open>s\<close> is below the minimum
  of every tier it returns \<open>None\<close>, and \<open>calculate_discount\<close> reports percentage 0 and
  amount 0. The claim's restriction to non-negative subtotals is not needed.
\<close>

theorem select_tier_best:
  "((\<exists>r \<in> set (discount_rules self). min_amount r \<le> s) \<longrightarrow>
      (\<exists>rule. get_applicable_discount self s = Some rule \<and>
         rule \<in> set (discount_rules self) \<and> min_amount rule \<le> s \<and>
         (\<forall>r \<in> set (discount_rules self). min_amount r \<le> s \<longrightarrow>
            DiscountRule.discount_percentage r \<le> DiscountRule.discount_percentage rule))) \<and>
   ((\<forall>r \<in> set (discount_rules self). s < min_amount r) \<longrightarrow>
      get_applicable_discount self s = None \<and>
      di_discount_percentage (calculate_discount self s) = 0 \<and>
      di_discount_amount (calculate_discount self s) = 0)"
proof (intro conjI impI)
  assume "\<exists>r \<in> set (discount_rules self). min_amount r \<le> s"
  then have "get_applicable_discount self s \<noteq> None"
    by (auto simp: get_applicable_discount_None not_less)
  then obtain rule where "get_applicable_discount self s = Some rule" by auto
  with get_applicable_discount_Some[OF this]
  show "\<exists>rule. get_applicable_discount self s = Some rule \<and>
         rule \<in> set (discount_rules self) \<and> min_amount rule \<le> s \<and>
         (\<forall>r \<in> set (discount_rules self). min_amount r \<le> s \<longrightarrow>
            DiscountRule.discount_percentage r \<le> DiscountRule.discount_percentage rule)"
    by blast
next
  assume a: "\<forall>r \<in> set (discount_rules self). s < min_amount r"
  then show n: "get_applicable_discount self s = None"
    by (simp add: get_applicable_discount_None)
  show "di_discount_percentage (calculate_discount self s) = 0"
    by (simp add: calculate_discount_def n)
  show "di_discount_amount (calculate_discount self s) = 0"
    by (simp add: calculate_discount_def n)
qed

text \<open>The configured tiers at the subtotals 600 (the 10% tier is selected) and 50 (no
  tier).\<close>

theorem select_tier_best_witness:
  "(\<exists>rule. get_applicable_discount DiscountCalculator_init 600 = Some rule \<and>
      min_amount rule \<le> 600 \<and> DiscountRule.discount_percentage rule = 10) \<and>
   get_applicable_discount DiscountCalculator_init 50 = None \<and>
   di_discount_percentage (calculate_discount DiscountCalculator_init 50) = 0 \<and>
   di_discount_amount (calculate_discount DiscountCalculator_init 50) = 0"
proof -
  have h1: "\<exists>r \<in> set (discount_rules DiscountCalculator_init). min_amount r \<le> 600"
    by (simp add: DiscountCalculator_init_def)
  have h2: "\<forall>r \<in> set (discount_rules DiscountCalculator_init). 50 < min_amount r"
    by (simp add: DiscountCalculator_init_def)
  from h1 select_tier_best[of DiscountCalculator_init 600]
  obtain rule where sel: "get_applicable_discount DiscountCalculator_init 600 = Some rule"
    and mem: "rule \<in> set (discount_rules DiscountCalculator_init)"
    and elig: "min_amount rule \<le> 600"
    and best: "\<forall>r \<in> set (discount_rules DiscountCalculator_init). min_amount r \<le> 600 \<longrightarrow>
         DiscountRule.discount_percentage r \<le> DiscountRule.discount_percentage rule"
    by blast
  from best have "10 \<le> DiscountRule.discount_percentage rule"
    by (simp add: DiscountCalculator_init_def)
  with mem elig have "DiscountRule.discount_percentage rule = 10"
    by (auto simp: DiscountCalculator_init_def)
  with sel elig h2 select_tier_best[of DiscountCalculator_init 50]
  show ?thesis by blast
qed

section \<open>Tax computation\<close>

lemma calculate_tax_try_enabled:
  assumes "0 \<le> amount" and "value2member_map state = Some st"
    and "tax_rates self st = Some tr" and "enabled tr"
  shows "\<exists>r. calculate_tax_try self amount state = Inr r \<and>
           ti_original_amount r = round2 amount \<and>
           ti_tax_rate r = rate tr \<and>
           ti_tax_amount r = round2 (fmul (round2 amount) (fdiv (rate tr) 100)) \<and>
           ti_final_amount r = round2 (fadd (round2 amount) (ti_tax_amount r))"
  using assms(1)
  by (simp add: calculate_tax_try_def validate_state_enabled[OF assms(2-4)] get_tax_rate_def
      assms(3) Let_def)

lemma calculate_tax_Inr:
  "calculate_tax_try self amount state = Inr r \<Longrightarrow> calculate_tax self amount state = Inr r"
  by (simp add: calculate_tax_def)

text \<open>
  Claim C4. For a non-negative amount and a jurisdiction code that is known and has an
  enabled rate entry, \<open>calculate_tax\<close> returns a result in which the amount is first
  rounded to two decimals, the tax is the rounded amount times \<open>rate / 100\<close> rounded to
  two decimals, and the final amount is the rounded amount plus that tax, rounded to two
  decimals; the products, quotients and sums are the float operations of the source.
\<close>

theorem calculate_tax_rounding_order:
  assumes "0 \<le> amount" and "value2member_map state = Some st"
    and "tax_rates self st = Some tr" and "enabled tr"
  shows "\<exists>r. calculate_tax self amount state = Inr r \<and>
           ti_original_amount r = round2 amount \<and>
           ti_tax_rate r = rate tr \<and>
           ti_tax_amount r = round2 (fmul (round2 amount) (fdiv (rate tr) 100)) \<and>
           ti_final_amount r = round2 (fadd (round2 amount) (ti_tax_amount r))"
  using calculate_tax_try_enabled[OF assms] calculate_tax_Inr by blast

lemma CA_rate: "tax_rates TaxCalculator_init CA =
  Some \<lparr>rate = fl (825 / 100), description = ''California Sales Tax'', enabled = True\<rparr>"
  by (simp add: TaxCalculator_init_def)

lemma CA_member: "value2member_map ''CA'' = Some CA"
  by (simp add: value2member_map_cases)

text \<open>
  The configured table at the amount 94.999 and the code CA: the amount is rounded to 95
  before the tax 7.84 and the total 102.84 are computed.
\<close>

theorem calculate_tax_rounding_order_witness:
  "\<exists>r. calculate_tax TaxCalculator_init (fl (94999 / 1000)) ''CA'' = Inr r \<and>
       ti_original_amount r = 95 \<and>
       ti_tax_rate r = fl (825 / 100) \<and>
       ti_tax_amount r = fl (784 / 100) \<and>
       ti_final_amount r = fl (10284 / 100)"
proof -
  have pos: "0 \<le> fl (94999 / 1000)" by code_simp
  have a: "round2 (fl (94999 / 1000)) = 95" by code_simp
  have t: "round2 (fmul 95 (fdiv (fl (825 / 100)) 100)) = fl (784 / 100)" by code_simp
  have f: "round2 (fadd 95 (fl (784 / 100))) = fl (10284 / 100)" by code_simp
  from calculate_tax_rounding_order[OF pos CA_member CA_rate] a t f
  show ?thesis by auto
qed


text \<open>
  Claim C8. For a negative amount and a known, enabled jurisdiction code,
  \<open>calculate_tax\<close> returns no result: it raises a \<open>CalculationError\<close> whose message says
  that the amount cannot be negative and whose diagnostic data hold the amount as passed
  and the code. The error is neither of the two jurisdiction errors.
\<close>

theorem calculate_tax_negative_amount:
  assumes "amount < 0" and "value2member_map state = Some st"
    and "tax_rates self st = Some tr" and "enabled tr"
  shows "\<exists>e. calculate_tax self amount state = Inl e \<and>
           e = CalculationError [Lit negative_amount_message]
                 [(''amount'', PFloat amount), (''state'', PStr [Lit state])] \<and>
           map_option error_code (retail_detail e) = Some ''CALCULATION_ERROR'' \<and>
           map_option message (retail_detail e) =
             Some [Lit ''Erreur lors du calcul : '', Lit negative_amount_message] \<and>
           map_option additional_info (retail_detail e) =
             Some [(''calculation_data'',
                      PDict [(''amount'', PFloat amount), (''state'', PStr [Lit state])]),
                   (''suggestion'', PStr [Lit (''Veuillez v'' @ e_acute @ ''rifier les donn''
                      @ e_acute @ ''es d'' @ apostrophe @ ''entr'' @ e_acute @ ''e'')])]"
  using assms(1)
  by (simp add: calculate_tax_def calculate_tax_try_def validate_state_enabled[OF assms(2-4)]
      negative_amount_message_def)

text \<open>
  The configured table at the amount -1 and the code CA.
\<close>

theorem calculate_tax_negative_amount_witness:
  "calculate_tax TaxCalculator_init (- 1) ''CA'' =
     Inl (CalculationError [Lit negative_amount_message]
            [(''amount'', PFloat (- 1)), (''state'', PStr [Lit ''CA''])])"
proof -
  have neg: "(- 1 :: rat) < 0" by simp
  from calculate_tax_negative_amount[OF neg CA_member CA_rate]
  show ?thesis by auto
qed

text \<open>
  Claim C9. One unit at 100.00 in CA: the pipeline succeeds with subtotal 100, discount
  5% (5.00), price after discount 95, tax rate 8.25, tax 7.84 and final price 102.84 (the
  floats nearest to these decimals).
\<close>

theorem scenario_one_unit_at_100_CA:
  "case calculate_final_price PriceCalculator_init 1 100 ''CA'' of
     Inl e \<Rightarrow> False
   | Inr b \<Rightarrow>
       subtotal b = 100 \<and> discount_percentage b = 5 \<and> discount_amount b = 5 \<and>
       price_after_discount b = 95 \<and> tax_rate b = fl (825 / 100) \<and>
       tax_amount b = fl (784 / 100) \<and> final_price b = fl (10284 / 100)"
  by code_simp

text \<open>
  Claim C1, evaluated on the code. \<open>calculate_final_price\<close> does not let a jurisdiction
  error through: for the unknown code ZZ the \<open>InvalidStateError\<close> of the tax engine, and
  for a known code without rate entry the \<open>StateNotSupportedError\<close>, is caught by
  \<open>except Exception\<close> and comes out as a \<open>CalculationError\<close> carrying the quantity, the
  unit price and the code.
\<close>

theorem pipeline_rewraps_jurisdiction_errors:
  "calculate_final_price PriceCalculator_init 5 10 ''ZZ'' =
     Inl (CalculationError [Str (InvalidStateError ''ZZ'' [''UT'', ''NV'', ''TX'', ''AL'', ''CA''])]
            [(''quantity'', PInt 5), (''unit_price'', PFloat 10), (''state'', PStr [Lit ''ZZ''])]) \<and>
   calculate_final_price
       (PriceCalculator_init\<lparr>tax_calculator :=
          \<lparr>tax_rates = (tax_rates TaxCalculator_init)(TX := None)\<rparr>\<rparr>) 5 10 ''TX'' =
     Inl (CalculationError [Str (StateNotSupportedError ''TX'')]
            [(''quantity'', PInt 5), (''unit_price'', PFloat 10), (''state'', PStr [Lit ''TX''])])"
  by code_simp

section \<open>Error propagation and validation\<close>

lemma calculate_tax_not_ValueError: "calculate_tax self amount state \<noteq> Inl (ValueError m)"
  by (simp add: calculate_tax_def split: sum.splits exn.splits)

lemma calculate_tax_not_TypeError: "calculate_tax self amount state \<noteq> Inl TypeError"
  by (simp add: calculate_tax_def split: sum.splits exn.splits)

lemma calculate_tax_unknown:
  "state \<notin> set list_states \<Longrightarrow>
   calculate_tax self amount state = Inl (InvalidStateError state list_states)"
  by (simp add: calculate_tax_def calculate_tax_try_def validate_state_unknown)

lemma calculate_final_price_no_InvalidStateError:
  "calculate_final_price self quantity unit_price state \<noteq> Inl (InvalidStateError s vs)"
  by (simp add: calculate_final_price_def split: sum.splits exn.splits)

lemma calculate_final_price_no_StateNotSupportedError:
  "calculate_final_price self quantity unit_price state \<noteq> Inl (StateNotSupportedError s)"
  by (simp add: calculate_final_price_def split: sum.splits exn.splits)

lemma validate_inputs_cases:
  "validate_inputs self quantity unit_price = Inr () \<or>
   (\<exists>m. validate_inputs self quantity unit_price = Inl (ValueError m) \<and> m \<noteq> [])"
  by (simp add: validate_inputs_def Let_def)

lemma validate_inputs_ok_iff:
  "validate_inputs PriceCalculator_init quantity unit_price = Inr () \<longleftrightarrow>
   0 < quantity \<and> quantity \<le> 10000 \<and> 0 < unit_price \<and> unit_price \<le> 1000000 \<and>
   fmul (of_int quantity) unit_price \<le> 10000000"
  by (auto simp: validate_inputs_def PriceCalculator_init_def Let_def)

lemma calculate_final_price_ValueError_iff:
  "calculate_final_price self quantity unit_price state = Inl (ValueError m) \<longleftrightarrow>
   validate_inputs self quantity unit_price = Inl (ValueError m)"
proof (cases "validate_inputs self quantity unit_price")
  case (Inl e)
  then show ?thesis
    using validate_inputs_cases[of self quantity unit_price]
    by (auto simp: calculate_final_price_def calculate_final_price_try_def)
next
  case (Inr u)
  then show ?thesis
    using calculate_tax_not_ValueError
    by (auto simp: calculate_final_price_def calculate_final_price_try_def Let_def
        split: sum.splits exn.splits)
qed

text \<open>
  Claim C6. With the limits of \<open>PriceCalculator.__init__\<close>, for every quantity, unit
  price and jurisdiction code: \<open>calculate_final_price\<close> raises a \<open>ValueError\<close> if and only
  if the quantity is at most 0 or above 10000, the unit price is at most 0 or above
  1000000, or the product of quantity and unit price (the float product the source
  computes) is above 10000000. The error carries the non-empty message of the failed check
  of \<open>validate_inputs\<close>, and being an error it carries no breakdown.
\<close>

theorem validation_failure_iff:
  "(quantity \<le> 0 \<or> 10000 < quantity \<or> unit_price \<le> 0 \<or> 1000000 < unit_price \<or>
    10000000 < fmul (of_int quantity) unit_price) \<longleftrightarrow>
   (\<exists>m. calculate_final_price PriceCalculator_init quantity unit_price state
           = Inl (ValueError m) \<and>
        validate_inputs PriceCalculator_init quantity unit_price = Inl (ValueError m) \<and>
        m \<noteq> [])"
proof -
  have "(\<exists>m. calculate_final_price PriceCalculator_init quantity unit_price state
           = Inl (ValueError m) \<and>
        validate_inputs PriceCalculator_init quantity unit_price = Inl (ValueError m) \<and>
        m \<noteq> []) \<longleftrightarrow> validate_inputs PriceCalculator_init quantity unit_price \<noteq> Inr ()"
    using validate_inputs_cases[of PriceCalculator_init quantity unit_price]
    by (auto simp: calculate_final_price_ValueError_iff)
  then show ?thesis
    unfolding validate_inputs_ok_iff by (auto simp: not_le not_less)
qed

text \<open>
  Quantity 0 and the total 1000 times 99999.99 are rejected; one unit at 100 is not.
\<close>

theorem validation_failure_iff_witness:
  "(\<exists>m. calculate_final_price PriceCalculator_init 0 100 ''CA'' = Inl (ValueError m)) \<and>
   (\<exists>m. calculate_final_price PriceCalculator_init 1000 (fl (9999999 / 100)) ''CA''
          = Inl (ValueError m)) \<and>
   \<not> (\<exists>m. calculate_final_price PriceCalculator_init 1 100 ''CA'' = Inl (ValueError m) \<and>
          validate_inputs PriceCalculator_init 1 100 = Inl (ValueError m) \<and> m \<noteq> [])"
proof -
  have big: "10000000 < fmul (of_int 1000) (fl (9999999 / 100))" by code_simp
  have small: "\<not> 10000000 < fmul (of_int 1) 100" by code_simp
  from validation_failure_iff[of 0 100 "''CA''"]
  have a: "\<exists>m. calculate_final_price PriceCalculator_init 0 100 ''CA'' = Inl (ValueError m)"
    by auto
  from big validation_failure_iff[of 1000 "fl (9999999 / 100)" "''CA''"]
  have b: "\<exists>m. calculate_final_price PriceCalculator_init 1000 (fl (9999999 / 100)) ''CA''
          = Inl (ValueError m)"
    by auto
  from small validation_failure_iff[of 1 100 "''CA''"]
  have c: "\<not> (\<exists>m. calculate_final_price PriceCalculator_init 1 100 ''CA'' = Inl (ValueError m) \<and>
          validate_inputs PriceCalculator_init 1 100 = Inl (ValueError m) \<and> m \<noteq> [])"
    by simp
  from a b c show ?thesis by blast
qed

text \<open>
  The product compared with the limit is the rounded one: 11 units at 909090.9090909092
  pass \<open>validate_inputs\<close>, since the float product is exactly 10000000, although the
  exact product exceeds the limit by \<open>1 / 2 ^ 30\<close>.
\<close>

lemma total_limit_rounding_edge:
  "10000000 < of_int 11 * fl (9090909090909092 / 10000000000) \<and>
   fmul (of_int 11) (fl (9090909090909092 / 10000000000)) = 10000000 \<and>
   validate_inputs PriceCalculator_init 11 (fl (9090909090909092 / 10000000000)) = Inr ()"
  by code_simp

text \<open>
  Claim C2, as amended. When a tier applies, \<open>calculate_discount\<close> returns the tier's
  percentage, the amount \<open>round(subtotal * (percentage / 100), 2)\<close>, and the final amount
  \<open>round(subtotal - subtotal * (percentage / 100), 2)\<close>: the final amount is computed
  from the unrounded discount and rounded on its own.
\<close>

theorem calculate_discount_amounts:
  assumes "get_applicable_discount self s = Some rule"
  shows "di_discount_percentage (calculate_discount self s)
           = DiscountRule.discount_percentage rule \<and>
         di_discount_amount (calculate_discount self s)
           = round2 (fmul s (fdiv (DiscountRule.discount_percentage rule) 100)) \<and>
         di_final_amount (calculate_discount self s)
           = round2 (fsub s (fmul s (fdiv (DiscountRule.discount_percentage rule) 100)))"
  using assms by (simp add: calculate_discount_def Let_def)

text \<open>
  The configured tiers at the subtotal 100.001.
\<close>

theorem calculate_discount_amounts_witness:
  "di_discount_percentage (calculate_discount DiscountCalculator_init (fl (100001 / 1000))) = 5 \<and>
   di_discount_amount (calculate_discount DiscountCalculator_init (fl (100001 / 1000))) = 5 \<and>
   di_final_amount (calculate_discount DiscountCalculator_init (fl (100001 / 1000))) = 95"
proof -
  have sel: "get_applicable_discount DiscountCalculator_init (fl (100001 / 1000)) =
      Some \<lparr>min_amount = 100, discount_percentage = 5,
            description = ''5% de remise pour les achats de plus de 100'' @ euro\<rparr>"
    by code_simp
  have a: "round2 (fmul (fl (100001 / 1000)) (fdiv 5 100)) = 5" by code_simp
  have f: "round2 (fsub (fl (100001 / 1000)) (fmul (fl (100001 / 1000)) (fdiv 5 100))) = 95"
    by code_simp
  from calculate_discount_amounts[OF sel] a f show ?thesis by simp
qed

text \<open>
  Claim C2 as stated fails. At the non-negative subtotal 100.001 the 5% tier applies, the
  returned amount is 5 and the returned final amount is 95, which is not the subtotal minus
  the returned amount (neither as a float difference nor exactly).
\<close>

theorem final_amount_not_subtotal_minus_amount:
  "0 \<le> fl (100001 / 1000) \<and>
   get_applicable_discount DiscountCalculator_init (fl (100001 / 1000)) \<noteq> None \<and>
   di_discount_amount (calculate_discount DiscountCalculator_init (fl (100001 / 1000))) = 5 \<and>
   di_final_amount (calculate_discount DiscountCalculator_init (fl (100001 / 1000))) = 95 \<and>
   di_final_amount (calculate_discount DiscountCalculator_init (fl (100001 / 1000))) \<noteq>
     fsub (fl (100001 / 1000))
       (di_discount_amount (calculate_discount DiscountCalculator_init (fl (100001 / 1000)))) \<and>
   di_final_amount (calculate_discount DiscountCalculator_init (fl (100001 / 1000))) \<noteq>
     fl (100001 / 1000)
       - di_discount_amount (calculate_discount DiscountCalculator_init (fl (100001 / 1000)))"
  by code_simp

text \<open>The same mismatch at a subtotal with two decimals, as the pipeline produces them:
  500.05 gives the amount 50.01 and the final amount 450.05, while 500.05 - 50.01 is
  450.04.\<close>

lemma final_amount_mismatch_at_500_05:
  "di_discount_amount (calculate_discount DiscountCalculator_init (fl (50005 / 100)))
     = fl (5001 / 100) \<and>
   di_final_amount (calculate_discount DiscountCalculator_init (fl (50005 / 100)))
     = fl (45005 / 100) \<and>
   fsub (fl (50005 / 100)) (fl (5001 / 100)) = fl (45004 / 100)"
  by code_simp

text \<open>
  Claim C3, evaluated on the code. With the entry of CA disabled, \<open>validate_state\<close>
  raises \<open>TypeError\<close> and not \<open>StateNotSupportedError\<close>, and \<open>calculate_tax\<close> turns it
  into a \<open>CalculationError\<close> for an unexpected error.
\<close>

theorem disabled_state_raises_TypeError:
  "validate_state
     \<lparr>tax_rates = (tax_rates TaxCalculator_init)
        (CA \<mapsto> \<lparr>rate = fl (825 / 100), description = ''California Sales Tax'',
                 enabled = False\<rparr>)\<rparr> ''CA'' = Inl TypeError \<and>
   calculate_tax
     \<lparr>tax_rates = (tax_rates TaxCalculator_init)
        (CA \<mapsto> \<lparr>rate = fl (825 / 100), description = ''California Sales Tax'',
                 enabled = False\<rparr>)\<rparr> 95 ''CA'' =
     Inl (CalculationError [Lit ''Erreur inattendue lors du calcul de la taxe'']
            [(''amount'', PFloat 95), (''state'', PStr [Lit ''CA'']),
             (''error'', PStr [Str TypeError])])"
  by code_simp

text \<open>
  Claim C7, evaluated on the code. For the unknown code ZZ, \<open>validate_state\<close> and
  \<open>calculate_tax\<close> raise \<open>InvalidStateError\<close> with the code and the five valid codes, but
  \<open>calculate_final_price\<close> raises a \<open>CalculationError\<close> instead.
\<close>

theorem unknown_state_in_pipeline:
  "validate_state TaxCalculator_init ''ZZ''
     = Inl (InvalidStateError ''ZZ'' [''UT'', ''NV'', ''TX'', ''AL'', ''CA'']) \<and>
   calculate_tax TaxCalculator_init 50 ''ZZ''
     = Inl (InvalidStateError ''ZZ'' [''UT'', ''NV'', ''TX'', ''AL'', ''CA'']) \<and>
   calculate_final_price PriceCalculator_init 5 10 ''ZZ'' =
     Inl (CalculationError [Str (InvalidStateError ''ZZ'' [''UT'', ''NV'', ''TX'', ''AL'', ''CA''])]
            [(''quantity'', PInt 5), (''unit_price'', PFloat 10), (''state'', PStr [Lit ''ZZ''])])"
  by code_simp

section \<open>Bounds on float rounding\<close>

text \<open>A rounded non-negative number is non-negative, and above 1 rounding adds at most
  half a unit in the last place, that is, at most the fraction \<open>1 / 2 ^ 53\<close> of the number.\<close>

lemma round_half_even_nonneg: "0 \<le> y \<Longrightarrow> 0 \<le> round_half_even y"
  by (auto simp: round_half_even_def Let_def)

lemma round_half_even_le: "of_int (round_half_even y) \<le> y + 1 / 2"
proof -
  let ?f = "\<lfloor>y\<rfloor>"
  have f: "of_int ?f \<le> y" by simp
  consider "y - of_int ?f < 1 / 2" | "1 / 2 < y - of_int ?f" | "y - of_int ?f = 1 / 2"
    by linarith
  then show ?thesis
  proof cases
    case 1
    then have "round_half_even y = ?f" by (simp add: round_half_even_def Let_def)
    moreover have "of_int ?f \<le> y + 1 / 2" using of_int_floor_le[of y] by linarith
    ultimately show ?thesis by (simp only:)
  next
    case 2
    then have "round_half_even y = ?f + 1" by (simp add: round_half_even_def Let_def)
    with 2 show ?thesis by simp
  next
    case 3
    then have "round_half_even y = ?f \<or> round_half_even y = ?f + 1"
      by (simp add: round_half_even_def Let_def)
    with 3 show ?thesis by auto
  qed
qed

lemma pow2_pos: "0 < pow2 e"
  by (simp add: pow2_def)

lemma fl_nonneg: "0 \<le> x \<Longrightarrow> 0 \<le> fl x"
  using pow2_pos[of "max (ilog2 \<bar>x\<bar>) (- 1022) - 52"]
  by (auto simp: fl_def Let_def intro!: mult_nonneg_nonneg round_half_even_nonneg
      divide_nonneg_pos)

lemma round2_nonneg: "0 \<le> x \<Longrightarrow> 0 \<le> round2 x"
  unfolding round2_def by (rule fl_nonneg) (simp add: round_half_even_nonneg)

lemma pow2_diff_52: assumes "0 \<le> e" shows "pow2 (e - 52) = 2 ^ nat e / 2 ^ 52"
proof (cases "52 \<le> e")
  case True
  then have "nat e = nat (e - 52) + 52" by simp
  then have "(2::rat) ^ nat e = 2 ^ nat (e - 52) * 2 ^ 52" by (simp only: power_add)
  with True show ?thesis by (simp add: pow2_def)
next
  case False
  define A :: rat where "A = 2 ^ nat (52 - e)"
  define B :: rat where "B = 2 ^ nat e"
  have nz: "A \<noteq> 0" "B \<noteq> 0" by (simp_all add: A_def B_def)
  from False assms have "52 = nat (52 - e) + nat e" by simp
  then have "(2::rat) ^ 52 = 2 ^ (nat (52 - e) + nat e)" by simp
  then have eq: "(2::rat) ^ 52 = A * B" by (simp only: power_add A_def B_def)
  have "1 / A = B / (A * B)" using nz by simp
  then have "1 / A = B / 2 ^ 52" by (simp only: eq)
  moreover from False have "pow2 (e - 52) = 1 / A" by (simp add: pow2_def A_def)
  ultimately show ?thesis by (simp only: B_def)
qed

lemma ilog2_ge_1: assumes "1 \<le> x" shows "0 \<le> ilog2 x \<and> 2 ^ nat (ilog2 x) \<le> x"
proof -
  from assms have pos: "0 < \<lfloor>x\<rfloor>" by simp
  from bitlen_bounds[OF pos]
  have b: "2 ^ nat (bitlen \<lfloor>x\<rfloor> - 1) \<le> \<lfloor>x\<rfloor>" and c: "\<lfloor>x\<rfloor> < 2 ^ nat (bitlen \<lfloor>x\<rfloor>)"
    by simp_all
  have "0 < bitlen \<lfloor>x\<rfloor>"
  proof (rule ccontr)
    assume "\<not> 0 < bitlen \<lfloor>x\<rfloor>"
    then have "nat (bitlen \<lfloor>x\<rfloor>) = 0" by simp
    with c pos show False by simp
  qed
  moreover have "(2::rat) ^ nat (bitlen \<lfloor>x\<rfloor> - 1) \<le> of_int \<lfloor>x\<rfloor>"
    using b by (metis of_int_le_iff of_int_numeral of_int_power)
  then have "(2::rat) ^ nat (bitlen \<lfloor>x\<rfloor> - 1) \<le> x"
    using of_int_floor_le[of x] by (rule order_trans)
  ultimately show ?thesis using assms by (simp add: ilog2_def)
qed

lemma fl_upper: assumes "1 \<le> x" shows "fl x \<le> x + x / 2 ^ 53"
proof -
  let ?e = "ilog2 x"
  let ?u = "pow2 (?e - 52)"
  from ilog2_ge_1[OF assms] have e: "0 \<le> ?e" and p: "2 ^ nat ?e \<le> x" by simp_all
  have u: "?u = 2 ^ nat ?e / 2 ^ 52" by (rule pow2_diff_52[OF e])
  have upos: "0 < ?u" by (rule pow2_pos)
  have ule: "?u \<le> x / 2 ^ 52" unfolding u using p by (simp add: divide_right_mono)
  from assms e have "fl x = of_int (round_half_even (x / ?u)) * ?u"
    by (simp add: fl_def Let_def max_def)
  also have "\<dots> \<le> (x / ?u + 1 / 2) * ?u"
    using round_half_even_le[of "x / ?u"] upos by (simp add: mult_right_mono)
  also have "\<dots> = x + ?u / 2" using upos by (simp add: field_simps)
  also have "\<dots> \<le> x + (x / 2 ^ 52) / 2" using ule by simp
  also have "\<dots> = x + x / 2 ^ 53" by simp
  finally show ?thesis .
qed


section \<open>The pipeline on valid input\<close>

text \<open>With the configured tiers the discount never exceeds the subtotal, so the amount
  handed to the tax engine is non-negative and the tax engine accepts it.\<close>

lemma init_rule_cases:
  assumes "get_applicable_discount DiscountCalculator_init s = Some rule"
  shows "100 \<le> s \<and> DiscountRule.discount_percentage rule \<in> {5, 10, 15, 20}"
  using get_applicable_discount_Some[OF assms]
  by (auto simp: DiscountCalculator_init_def)

lemma fdiv_percentage_bounds:
  assumes "p \<in> {5, 10, 15, 20}"
  shows "1 / 100 \<le> fdiv p 100 \<and> fdiv p 100 \<le> 1 / 4"
proof -
  have "1 / 100 \<le> fdiv 5 100 \<and> fdiv 5 100 \<le> 1 / 4" by code_simp
  moreover have "1 / 100 \<le> fdiv 10 100 \<and> fdiv 10 100 \<le> 1 / 4" by code_simp
  moreover have "1 / 100 \<le> fdiv 15 100 \<and> fdiv 15 100 \<le> 1 / 4" by code_simp
  moreover have "1 / 100 \<le> fdiv 20 100 \<and> fdiv 20 100 \<le> 1 / 4" by code_simp
  ultimately show ?thesis using assms by auto
qed

lemma fmul_fraction_le:
  assumes s: "100 \<le> s" and c: "1 / 100 \<le> c" "c \<le> 1 / 4"
  shows "fmul s c \<le> s"
proof -
  have one: "1 \<le> s * c"
  proof -
    have "1 = 100 * (1 / 100 :: rat)" by simp
    also have "\<dots> \<le> s * c" using s c by (intro mult_mono) simp_all
    finally show ?thesis .
  qed
  have quarter: "s * c \<le> s * (1 / 4)" using s c by (intro mult_left_mono) simp_all
  have "fmul s c \<le> s * c + s * c / 2 ^ 53" unfolding fmul_def by (rule fl_upper[OF one])
  also have "\<dots> \<le> s * c + s * c"
  proof -
    have "0 \<le> s * c" using one by linarith
    then have "s * c / 2 ^ 53 \<le> s * c / 1" by (intro divide_left_mono) simp_all
    then show ?thesis by simp
  qed
  also have "\<dots> \<le> s * (1 / 4) + s * (1 / 4)" using quarter by (intro add_mono)
  also have "\<dots> \<le> s" using s by simp
  finally show ?thesis .
qed

lemma discount_final_amount_nonneg:
  assumes "0 \<le> s"
  shows "0 \<le> di_final_amount (calculate_discount DiscountCalculator_init s)"
proof (cases "get_applicable_discount DiscountCalculator_init s")
  case None
  with assms show ?thesis by (simp add: calculate_discount_def)
next
  case (Some rule)
  from init_rule_cases[OF Some] have s: "100 \<le> s"
    and p: "DiscountRule.discount_percentage rule \<in> {5, 10, 15, 20}" by simp_all
  from fdiv_percentage_bounds[OF p] fmul_fraction_le[OF s]
  have "fmul s (fdiv (DiscountRule.discount_percentage rule) 100) \<le> s" by blast
  then have "0 \<le> fsub s (fmul s (fdiv (DiscountRule.discount_percentage rule) 100))"
    unfolding fsub_def by (intro fl_nonneg) simp
  then have "0 \<le> round2 (fsub s (fmul s (fdiv (DiscountRule.discount_percentage rule) 100)))"
    by (rule round2_nonneg)
  with Some show ?thesis by (simp add: calculate_discount_def Let_def)
qed

lemma init_tax_rate_enabled: "\<exists>tr. tax_rates TaxCalculator_init st = Some tr \<and> enabled tr"
  by (cases st) (simp_all add: TaxCalculator_init_def)

lemma list_states_member:
  assumes "state \<in> set list_states"
  shows "\<exists>st. value2member_map state = Some st"
  using assms by (auto simp: list_states_def value2member_map_cases)

lemma calculate_tax_init_succeeds:
  assumes "0 \<le> amount" and "state \<in> set list_states"
  shows "\<exists>r. calculate_tax TaxCalculator_init amount state = Inr r"
proof -
  from list_states_member[OF assms(2)] obtain st where st: "value2member_map state = Some st"
    by blast
  from init_tax_rate_enabled[of st] obtain tr
    where tr: "tax_rates TaxCalculator_init st = Some tr" "enabled tr" by blast
  from calculate_tax_try_enabled[OF assms(1) st tr] calculate_tax_Inr
  show ?thesis by blast
qed

lemma pipeline_succeeds:
  assumes "0 < quantity" "quantity \<le> 10000" "0 < unit_price" "unit_price \<le> 1000000"
    and "fmul (of_int quantity) unit_price \<le> 10000000"
    and "state \<in> set list_states"
  shows "\<exists>b. calculate_final_price PriceCalculator_init quantity unit_price state = Inr b \<and>
           subtotal b = round2 (fmul (of_int quantity) unit_price)"
proof -
  let ?s = "round2 (fmul (of_int quantity) unit_price)"
  let ?d = "calculate_discount DiscountCalculator_init ?s"
  have v: "validate_inputs PriceCalculator_init quantity unit_price = Inr ()"
    using assms(1-5) by (simp add: validate_inputs_ok_iff)
  have "0 \<le> of_int quantity * unit_price" using assms(1,3) by simp
  then have "0 \<le> ?s" unfolding fmul_def by (intro round2_nonneg fl_nonneg)
  then have "0 \<le> di_final_amount ?d" by (rule discount_final_amount_nonneg)
  from calculate_tax_init_succeeds[OF this assms(6)] obtain r
    where r: "calculate_tax TaxCalculator_init (di_final_amount ?d) state = Inr r" by blast
  have tc: "tax_calculator PriceCalculator_init = TaxCalculator_init"
    and dc: "discount_calculator PriceCalculator_init = DiscountCalculator_init"
    by (simp_all add: PriceCalculator_init_def)
  show ?thesis
    by (simp add: calculate_final_price_def calculate_final_price_try_def v Let_def tc dc r)
qed

text \<open>
  Claim C10. \<open>calculate_final_price\<close> does not check the number of decimals of the unit
  price. For every quantity in 1..10000, every unit price in (0, 1000000] that the schema
  check \<open>validate_price\<close> rejects for having more than two decimals, with a total of at
  most 10000000, and every configured jurisdiction code, the pipeline succeeds and its
  subtotal is the product rounded to two decimals. In particular 2 units at 4.999 in CA
  succeed with subtotal 10, and \<open>validate_price\<close> rejects 4.999.
\<close>

theorem pipeline_accepts_excess_precision:
  "(\<forall>quantity unit_price state.
      0 < quantity \<and> quantity \<le> 10000 \<and> 0 < unit_price \<and> unit_price \<le> 1000000 \<and>
      fmul (of_int quantity) unit_price \<le> 10000000 \<and> state \<in> set list_states \<and>
      (\<exists>e. validate_price unit_price = Inl e) \<longrightarrow>
      (\<exists>b. calculate_final_price PriceCalculator_init quantity unit_price state = Inr b \<and>
           subtotal b = round2 (fmul (of_int quantity) unit_price))) \<and>
   (\<exists>e. validate_price (fl (4999 / 1000)) = Inl e) \<and>
   (\<exists>b. calculate_final_price PriceCalculator_init 2 (fl (4999 / 1000)) ''CA'' = Inr b \<and>
        subtotal b = 10)"
proof (intro conjI allI impI)
  fix quantity :: int and unit_price :: rat and state :: string
  assume "0 < quantity \<and> quantity \<le> 10000 \<and> 0 < unit_price \<and> unit_price \<le> 1000000 \<and>
      fmul (of_int quantity) unit_price \<le> 10000000 \<and> state \<in> set list_states \<and>
      (\<exists>e. validate_price unit_price = Inl e)"
  then show "\<exists>b. calculate_final_price PriceCalculator_init quantity unit_price state = Inr b \<and>
           subtotal b = round2 (fmul (of_int quantity) unit_price)"
    using pipeline_succeeds by blast
next
  have "round2 (fl (4999 / 1000)) \<noteq> fl (4999 / 1000)" by code_simp
  then show "\<exists>e. validate_price (fl (4999 / 1000)) = Inl e" by (simp add: validate_price_def)
next
  have b: "0 < fl (4999 / 1000) \<and> fl (4999 / 1000) \<le> 1000000 \<and>
        fmul (of_int 2) (fl (4999 / 1000)) \<le> 10000000 \<and>
        round2 (fmul (of_int 2) (fl (4999 / 1000))) = 10" by code_simp
  have "''CA'' \<in> set list_states" by (simp add: list_states_eq)
  with b pipeline_succeeds[of 2 "fl (4999 / 1000)" "''CA''"]
  show "\<exists>b. calculate_final_price PriceCalculator_init 2 (fl (4999 / 1000)) ''CA'' = Inr b \<and>
        subtotal b = 10" by auto
qed

text \<open>Three units at 1.9999 in TX: subtotal 6.\<close>

theorem pipeline_accepts_excess_precision_witness:
  "\<exists>b. calculate_final_price PriceCalculator_init 3 (fl (19999 / 10000)) ''TX'' = Inr b \<and>
       subtotal b = 6"
proof -
  have b: "0 < fl (19999 / 10000) \<and> fl (19999 / 10000) \<le> 1000000 \<and>
        fmul (of_int 3) (fl (19999 / 10000)) \<le> 10000000 \<and>
        round2 (fmul (of_int 3) (fl (19999 / 10000))) = 6 \<and>
        round2 (fl (19999 / 10000)) \<noteq> fl (19999 / 10000)" by code_simp
  then have v: "\<exists>e. validate_price (fl (19999 / 10000)) = Inl e"
    by (simp add: validate_price_def)
  have s: "''TX'' \<in> set list_states" by (simp add: list_states_eq)
  from pipeline_accepts_excess_precision
  have "0 < (3::int) \<and> (3::int) \<le> 10000 \<and> 0 < fl (19999 / 10000) \<and>
      fl (19999 / 10000) \<le> 1000000 \<and>
      fmul (of_int 3) (fl (19999 / 10000)) \<le> 10000000 \<and> ''TX'' \<in> set list_states \<and>
      (\<exists>e. validate_price (fl (19999 / 10000)) = Inl e) \<longrightarrow>
      (\<exists>b. calculate_final_price PriceCalculator_init 3 (fl (19999 / 10000)) ''TX'' = Inr b \<and>
           subtotal b = round2 (fmul (of_int 3) (fl (19999 / 10000))))"
    by blast
  with b v s show ?thesis by auto
qed

end
